theory Spec2Isabelle
  imports Complex_Main "HOL-Library.AList"
begin

section \<open>JSON values and JavaScript objects\<close>

text \<open>
  The route handlers of \<^verbatim>\<open>frontend/app/api/applications\<close> exchange JSON. A JSON number is
  modelled as a rational; an object is an association list (property order kept, as JavaScript
  keeps it). A property read on an object yields \<open>undefined\<close> when the key is absent: that is
  \<open>None\<close>.
\<close>

datatype json =
    JNull
  | JBool bool
  | JNum rat
  | JStr string
  | JArr "json list"
  | JObj "(string \<times> json) list"

type_synonym obj = "(string \<times> json) list"

text \<open>\<^verbatim>\<open>o.k\<close>: the own property \<open>k\<close> of the object, or undefined.\<close>

definition get_prop :: "obj \<Rightarrow> string \<Rightarrow> json option" where
  "get_prop ob k = map_of ob k"

text \<open>\<^verbatim>\<open>{...o, k: v}\<close> and \<^verbatim>\<open>o[k] = v\<close>: an existing key keeps its place and takes the
  new value, a new key goes last.\<close>

definition set_prop :: "string \<Rightarrow> json \<Rightarrow> obj \<Rightarrow> obj" where
  "set_prop k v ob = AList.update k v ob"

text \<open>JavaScript's ToBoolean, as \<^verbatim>\<open>!x\<close> and \<^verbatim>\<open>x || y\<close> use it.\<close>

fun truthy :: "json option \<Rightarrow> bool" where
  "truthy None = False"
| "truthy (Some JNull) = False"
| "truthy (Some (JBool b)) = b"
| "truthy (Some (JNum n)) = (n \<noteq> 0)"
| "truthy (Some (JStr s)) = (s \<noteq> [])"
| "truthy (Some (JArr xs)) = True"
| "truthy (Some (JObj kvs)) = True"

text \<open>\<^verbatim>\<open>Number.prototype.toString()\<close> of an integer (a millisecond clock reading is one, and
  is far below the \<open>10^21\<close> from which JavaScript switches to exponent notation).\<close>

definition digit_char :: "nat \<Rightarrow> char" where
  "digit_char d = ''0123456789'' ! d"

fun dec_nat :: "nat \<Rightarrow> string" where
  "dec_nat n = (if n < 10 then [digit_char n] else dec_nat (n div 10) @ [digit_char (n mod 10)])"

declare dec_nat.simps [simp del]

definition toString :: "int \<Rightarrow> string" where
  "toString i = (if i < 0 then CHR ''-'' # dec_nat (nat (- i)) else dec_nat (nat i))"

section \<open>The server: store, console, responses\<close>

text \<open>Exceptions a handler's \<^verbatim>\<open>try\<close> block can raise: \<^verbatim>\<open>request.json()\<close> rejects a body that
  is not JSON; a method call on \<open>undefined\<close> or \<open>null\<close>, the call of a property that is no
  function, and the conversion to a string of an object that has no usable \<open>toString\<close> are
  TypeErrors.\<close>

datatype js_error = SyntaxError | TypeError

text \<open>What the handlers print. \<open>New_application_received\<close> carries the id, the company, the
  stage, and the two values the funding text is formatted from (currency, amount).\<close>

datatype log_entry =
    New_application_received "json option" "json option" "json option" "json option"
      "json option"
  | Updating_application string json
  | Console_error string js_error

text \<open>The module-level \<^verbatim>\<open>const applications = []\<close> of \<^verbatim>\<open>applications/route.ts\<close> (the mock
  database) and the console.\<close>

record server =
  applications :: "obj list"
  console :: "log_entry list"

record response =
  status :: nat
  body :: obj

text \<open>An object literal as JSON text holds it: \<^verbatim>\<open>JSON.stringify\<close> leaves out a property whose
  value is undefined.\<close>

fun stringify :: "(string \<times> json option) list \<Rightarrow> obj" where
  "stringify [] = []"
| "stringify ((k, None) # kvs) = stringify kvs"
| "stringify ((k, Some v) # kvs) = (k, v) # stringify kvs"

text \<open>\<^verbatim>\<open>NextResponse.json(body, { status })\<close>; the status is 200 when none is given.\<close>

definition json_response :: "nat \<Rightarrow> obj \<Rightarrow> response" where
  "json_response s b = \<lparr>status = s, body = b\<rparr>"

definition internal_server_error :: response where
  "internal_server_error = json_response 500 [(''error'', JStr ''Internal server error'')]"

definition log :: "log_entry \<Rightarrow> server \<Rightarrow> server" where
  "log e st = st\<lparr>console := console st @ [e]\<rparr>"

text \<open>The two clock reads of a submission: \<^verbatim>\<open>Date.now()\<close> and
  \<^verbatim>\<open>new Date().toISOString()\<close>.\<close>

record clock =
  date_now :: int
  iso_now :: string

section \<open>POST /api/applications\<close>

text \<open>\<^verbatim>\<open>!data.company_name || !data.primary_business_model || !data.current_stage\<close>\<close>

definition missing_required :: "obj \<Rightarrow> bool" where
  "missing_required data =
     (\<not> truthy (get_prop data ''company_name'')
      \<or> \<not> truthy (get_prop data ''primary_business_model'')
      \<or> \<not> truthy (get_prop data ''current_stage''))"

text \<open>\<^verbatim>\<open>{ ...data, id: Date.now().toString(), submitted_at: new Date().toISOString() }\<close>\<close>

definition new_application :: "clock \<Rightarrow> obj \<Rightarrow> obj" where
  "new_application clk data =
     set_prop ''submitted_at'' (JStr (iso_now clk))
       (set_prop ''id'' (JStr (toString (date_now clk))) data)"

text \<open>
  The log line formats \<^verbatim>\<open>`${data.funding_currency} ${data.funding_amount_seeking.toLocaleString()}`\<close>,
  and both conversions can raise a TypeError on a value parsed from JSON.

  \<open>toString_ok v\<close>: the conversion of \<open>v\<close> to a string returns. A primitive converts; an object
  converts through \<^verbatim>\<open>Object.prototype.toString\<close> unless it has a property \<open>toString\<close> of its own,
  which, parsed from JSON, is no function; an array joins the conversions of its elements
  (null gives the empty string).
\<close>

fun toString_ok :: "json \<Rightarrow> bool" where
  "toString_ok (JArr xs) = list_all toString_ok xs"
| "toString_ok (JObj kvs) = (map_of kvs ''toString'' = None)"
| "toString_ok v = True"

text \<open>
  \<open>toLocaleString_ok v\<close>: the call \<^verbatim>\<open>v.toLocaleString()\<close> returns. On null there is no method
  to call. A number has its own method, a string or a boolean the one of
  \<^verbatim>\<open>Object.prototype\<close>, which calls \<^verbatim>\<open>this.toString()\<close>. An object raises when it has a
  property \<open>toLocaleString\<close> or \<open>toString\<close> of its own. An array calls the method on each of its
  elements but the null ones.
\<close>

fun toLocaleString_ok :: "json \<Rightarrow> bool" where
  "toLocaleString_ok JNull = False"
| "toLocaleString_ok (JArr xs) = list_all (\<lambda>x. x = JNull \<or> toLocaleString_ok x) xs"
| "toLocaleString_ok (JObj kvs) =
     (map_of kvs ''toLocaleString'' = None \<and> map_of kvs ''toString'' = None)"
| "toLocaleString_ok v = True"

text \<open>The funding text is built: the currency, when there is one, converts (undefined gives
  the text \<open>undefined\<close>), and the amount is there and its method call returns.\<close>

fun funding_text_ok :: "json option \<Rightarrow> json option \<Rightarrow> bool" where
  "funding_text_ok currency None = False"
| "funding_text_ok None (Some amount) = toLocaleString_ok amount"
| "funding_text_ok (Some c) (Some amount) = (toString_ok c \<and> toLocaleString_ok amount)"

text \<open>
  The handler. Its argument is the outcome of \<^verbatim>\<open>await request.json()\<close>, typed
  \<^verbatim>\<open>ApplicationData\<close> by the source: an object, whose keys nothing checks. The steps, in the
  source's order: validate; build the record; push it; log, which raises a TypeError when the
  funding text cannot be built; answer 201. The \<^verbatim>\<open>catch\<close> prints the error and answers 500.
\<close>

fun POST :: "clock \<Rightarrow> js_error + obj \<Rightarrow> server \<Rightarrow> response \<times> server" where
  "POST clk (Inl e) st =
     (internal_server_error, log (Console_error ''Error processing application:'' e) st)"
| "POST clk (Inr data) st =
     (if missing_required data
      then (json_response 400 [(''error'', JStr ''Missing required fields'')], st)
      else
        let newApplication = new_application clk data;
            st1 = st\<lparr>applications := applications st @ [newApplication]\<rparr>
        in if funding_text_ok (get_prop data ''funding_currency'')
                (get_prop data ''funding_amount_seeking'')
           then (json_response 201
                   (stringify
                     [(''success'', Some (JBool True)),
                      (''id'', get_prop newApplication ''id''),
                      (''message'', Some (JStr ''Application submitted successfully''))]),
                 log (New_application_received (get_prop newApplication ''id'')
                        (get_prop data ''company_name'') (get_prop data ''current_stage'')
                        (get_prop data ''funding_currency'')
                        (get_prop data ''funding_amount_seeking'')) st1)
           else (internal_server_error,
                 log (Console_error ''Error processing application:'' TypeError) st1))"

section \<open>GET /api/applications\<close>

subsection \<open>Numbers\<close>

text \<open>
  The values of JavaScript's Number type that the handler meets: NaN, the two infinities, and
  the doubles that are integers. Text is UTF-8 here, one \<open>char\<close> a byte.
\<close>

datatype number = NaN | Fin int | PosInf | NegInf

text \<open>
  The double nearest to a natural number, ties to even, as ECMAScript's conversion of a
  mathematical value to Number has it. A double has a significand of 53 bits:
  \<open>exponent_shift n\<close> is the number of low bits of \<open>n\<close> that do not fit, and \<open>round_nat\<close> rounds
  them away. Below \<open>2^53\<close> nothing is rounded. The result is kept as a natural number; from
  \<open>2^1024\<close> on it stands for an overflow.
\<close>

fun exponent_shift :: "nat \<Rightarrow> nat" where
  "exponent_shift n = (if n < 2 ^ 53 then 0 else Suc (exponent_shift (n div 2)))"

declare exponent_shift.simps [simp del]

definition round_nat :: "nat \<Rightarrow> nat" where
  "round_nat n =
     (let e = exponent_shift n; q = n div 2 ^ e; r = n mod 2 ^ e
      in if 2 ^ e < 2 * r \<or> (2 * r = 2 ^ e \<and> odd q) then (q + 1) * 2 ^ e else q * 2 ^ e)"

definition to_number :: "int \<Rightarrow> number" where
  "to_number i =
     (let m = round_nat (nat \<bar>i\<bar>)
      in if 2 ^ 1024 \<le> m then (if i < 0 then NegInf else PosInf)
         else Fin (if i < 0 then - int m else int m))"

text \<open>
  \<^verbatim>\<open>Number.parseInt(s)\<close> with no radix: leading white space is skipped, a sign is read, the
  prefix \<^verbatim>\<open>0x\<close> selects base 16, and the longest run of digits is the value, converted to a
  Number; with no digit the result is NaN. The white space is ECMAScript's: the ASCII
  characters, and as UTF-8 sequences U+00A0, U+1680, U+2000 to U+200A, U+2028, U+2029, U+202F,
  U+205F, U+3000 and U+FEFF.
\<close>

definition is_ws1 :: "char \<Rightarrow> bool" where
  "is_ws1 a = (a \<in> set [CHR 0x09, CHR 0x0A, CHR 0x0B, CHR 0x0C, CHR 0x0D, CHR '' ''])"

definition is_ws2 :: "char \<Rightarrow> char \<Rightarrow> bool" where
  "is_ws2 a b = (a = CHR 0xC2 \<and> b = CHR 0xA0)"

definition is_ws3 :: "char \<Rightarrow> char \<Rightarrow> char \<Rightarrow> bool" where
  "is_ws3 a b c =
     ((a = CHR 0xE1 \<and> b = CHR 0x9A \<and> c = CHR 0x80)
      \<or> (a = CHR 0xE2 \<and> b = CHR 0x80 \<and> 0x80 \<le> (of_char c :: nat) \<and> (of_char c :: nat) \<le> 0x8A)
      \<or> (a = CHR 0xE2 \<and> b = CHR 0x80 \<and> c \<in> set [CHR 0xA8, CHR 0xA9, CHR 0xAF])
      \<or> (a = CHR 0xE2 \<and> b = CHR 0x81 \<and> c = CHR 0x9F)
      \<or> (a = CHR 0xE3 \<and> b = CHR 0x80 \<and> c = CHR 0x80)
      \<or> (a = CHR 0xEF \<and> b = CHR 0xBB \<and> c = CHR 0xBF))"

fun skip_whitespace :: "string \<Rightarrow> string" where
  "skip_whitespace (a # b # c # s) =
     (if is_ws1 a then skip_whitespace (b # c # s)
      else if is_ws2 a b then skip_whitespace (c # s)
      else if is_ws3 a b c then skip_whitespace s
      else a # b # c # s)"
| "skip_whitespace [a, b] =
     (if is_ws1 a then skip_whitespace [b] else if is_ws2 a b then [] else [a, b])"
| "skip_whitespace [a] = (if is_ws1 a then [] else [a])"
| "skip_whitespace [] = []"

definition digit_value :: "char \<Rightarrow> nat option" where
  "digit_value c =
     (let n = (of_char c :: nat)
      in if 48 \<le> n \<and> n \<le> 57 then Some (n - 48)
         else if 97 \<le> n \<and> n \<le> 122 then Some (n - 87)
         else if 65 \<le> n \<and> n \<le> 90 then Some (n - 55)
         else None)"

definition is_digit :: "nat \<Rightarrow> char \<Rightarrow> bool" where
  "is_digit radix c = (case digit_value c of None \<Rightarrow> False | Some d \<Rightarrow> d < radix)"

fun digits_value :: "nat \<Rightarrow> nat \<Rightarrow> string \<Rightarrow> nat" where
  "digits_value radix acc [] = acc"
| "digits_value radix acc (c # cs) =
     (case digit_value c of
        None \<Rightarrow> acc
      | Some d \<Rightarrow> digits_value radix (acc * radix + d) cs)"

fun strip_sign :: "string \<Rightarrow> int \<times> string" where
  "strip_sign [] = (1, [])"
| "strip_sign (c # cs) =
     (if c = CHR ''-'' then (- 1, cs) else if c = CHR ''+'' then (1, cs) else (1, c # cs))"

fun strip_prefix :: "string \<Rightarrow> nat \<times> string" where
  "strip_prefix (a # b # cs) =
     (if a = CHR ''0'' \<and> (b = CHR ''x'' \<or> b = CHR ''X'') then (16, cs) else (10, a # b # cs))"
| "strip_prefix cs = (10, cs)"

definition parseInt :: "string \<Rightarrow> number" where
  "parseInt s =
     (let (sign, s1) = strip_sign (skip_whitespace s);
          (radix, s2) = strip_prefix s1;
          ds = takeWhile (is_digit radix) s2
      in if ds = [] then NaN else to_number (sign * int (digits_value radix 0 ds)))"

text \<open>\<^verbatim>\<open>url.searchParams.get(name) || fallback\<close>: null and the empty string give the fallback.\<close>

definition or_default :: "string option \<Rightarrow> string \<Rightarrow> string" where
  "or_default v d = (case v of None \<Rightarrow> d | Some s \<Rightarrow> if s = [] then d else s)"

text \<open>\<^verbatim>\<open>offset + limit\<close> on these numbers: NaN when either is, or when the infinities are
  opposite; the sum of two doubles is the double nearest to the exact sum.\<close>

fun num_add :: "number \<Rightarrow> number \<Rightarrow> number" where
  "num_add NaN y = NaN"
| "num_add x NaN = NaN"
| "num_add (Fin a) (Fin b) = to_number (a + b)"
| "num_add PosInf NegInf = NaN"
| "num_add NegInf PosInf = NaN"
| "num_add PosInf y = PosInf"
| "num_add x PosInf = PosInf"
| "num_add NegInf y = NegInf"
| "num_add x NegInf = NegInf"

text \<open>A number as JSON text holds it: NaN and the infinities become null.\<close>

fun num_json :: "number \<Rightarrow> json" where
  "num_json (Fin i) = JNum (of_int i)"
| "num_json x = JNull"

text \<open>
  \<^verbatim>\<open>Array.prototype.slice(start, end)\<close>: NaN counts as 0, a negative index counts from the end,
  every index is clamped to the length, and the result is empty when the end is not past the
  start.
\<close>

fun relative_index :: "nat \<Rightarrow> number \<Rightarrow> nat" where
  "relative_index len NaN = 0"
| "relative_index len (Fin i) = (if i < 0 then nat (max (int len + i) 0) else min (nat i) len)"
| "relative_index len PosInf = len"
| "relative_index len NegInf = 0"

text \<open>\<open>index_at_least b x\<close>: the number \<open>x\<close> is \<open>+\<infinity>\<close> or an integer from \<open>b\<close> on, so that as an
  index it is at or past the end of every array of at most \<open>b\<close> elements.\<close>

fun index_at_least :: "nat \<Rightarrow> number \<Rightarrow> bool" where
  "index_at_least b PosInf = True"
| "index_at_least b (Fin i) = (int b \<le> i)"
| "index_at_least b x = False"

definition slice :: "'a list \<Rightarrow> number \<Rightarrow> number \<Rightarrow> 'a list" where
  "slice xs start end' =
     (let len = length xs;
          k = relative_index len start;
          final = relative_index len end'
      in take (final - k) (drop k xs))"

subsection \<open>The mock decoration\<close>

text \<open>
  What the four \<^verbatim>\<open>Math.random()\<close> expressions of one entry evaluate to, in the order of the
  object literal. The floating-point arithmetic is not modelled: the values it produces are
  inputs. \<open>score\<close> is the double \<^verbatim>\<open>Math.random() * 3 + 7\<close>, \<open>risk_index\<close> is
  \<^verbatim>\<open>Math.floor(Math.random() * 3)\<close>, \<open>status_index\<close> is \<^verbatim>\<open>Math.floor(Math.random() * 4)\<close> and
  \<open>no_red_flags\<close> is \<^verbatim>\<open>Math.random() > 0.5\<close>.
\<close>

record decoration =
  score :: rat
  risk_index :: int
  status_index :: int
  no_red_flags :: bool

text \<open>\<^verbatim>\<open>arr[i]\<close> on an array of strings: undefined out of range.\<close>

definition pick :: "string list \<Rightarrow> int \<Rightarrow> json option" where
  "pick xs i = (if 0 \<le> i \<and> nat i < length xs then Some (JStr (xs ! nat i)) else None)"

text \<open>\<^verbatim>\<open>{ ...o, k: v }\<close> as the response text holds it: a key set to undefined is not in
  it.\<close>

fun assign :: "string \<Rightarrow> json option \<Rightarrow> obj \<Rightarrow> obj" where
  "assign k None ob = AList.delete k ob"
| "assign k (Some v) ob = set_prop k v ob"

text \<open>The decorated copy of one application: the five keys are written over whatever the
  stored application has under them, every other key is copied.\<close>

definition enhance :: "decoration \<Rightarrow> obj \<Rightarrow> obj" where
  "enhance d app =
     assign ''red_flags''
       (Some (if no_red_flags d then JArr []
              else JArr [JStr ''High customer acquisition costs'',
                         JStr ''Competitive market landscape'']))
     (assign ''key_insights''
       (Some (JArr [JStr ''Strong product-market fit indicators'',
                    JStr ''Experienced founding team'',
                    JStr ''Healthy unit economics'']))
     (assign ''status''
       (pick [''PENDING'', ''REVIEWED'', ''APPROVED'', ''REJECTED''] (status_index d))
     (assign ''risk_level'' (pick [''LOW'', ''MEDIUM'', ''HIGH''] (risk_index d))
     (assign ''ai_score'' (Some (JNum (score d))) app))))"

text \<open>\<^verbatim>\<open>.map(app => ...)\<close>: \<open>random n\<close> is the decoration computed for the \<open>n\<close>-th entry of the
  request.\<close>

fun enhance_all :: "(nat \<Rightarrow> decoration) \<Rightarrow> nat \<Rightarrow> obj list \<Rightarrow> obj list" where
  "enhance_all random n [] = []"
| "enhance_all random n (app # apps) = enhance (random n) app # enhance_all random (Suc n) apps"

text \<open>The handler; \<open>query\<close> is the URL's search parameters (\<^verbatim>\<open>get\<close> returns the first value of
  a name). Nothing in its \<^verbatim>\<open>try\<close> block can raise.\<close>

definition GET_applications ::
    "(nat \<Rightarrow> decoration) \<Rightarrow> (string \<times> string) list \<Rightarrow> server \<Rightarrow> response \<times> server" where
  "GET_applications random query st =
     (let limit = parseInt (or_default (map_of query ''limit'') ''10'');
          offset = parseInt (or_default (map_of query ''offset'') ''0'');
          enhancedApplications =
            enhance_all random 0 (slice (applications st) offset (num_add offset limit))
      in (json_response 200
            [(''applications'', JArr (map JObj enhancedApplications)),
             (''total'', JNum (of_nat (length (applications st)))),
             (''limit'', num_json limit),
             (''offset'', num_json offset)],
          st))"

section \<open>GET and PATCH /api/applications/[id]\<close>

text \<open>The rupee sign of the source text, in UTF-8.\<close>

definition rupee :: string where
  "rupee = [CHR 0xE2, CHR 0x82, CHR 0xB9]"

definition mockApplication :: "string \<Rightarrow> string \<Rightarrow> obj" where
  "mockApplication id' submitted =
     [(''id'', JStr id'),
      (''company_name'', JStr ''TechFlow AI Solutions''),
      (''primary_business_model'', JStr ''SaaS/Software''),
      (''current_stage'', JStr (''Early Revenue (<'' @ rupee @ ''1Cr ARR)'')),
      (''funding_amount_seeking'', JNum 25000000),
      (''funding_currency'', JStr ''INR''),
      (''monthly_revenue_gmv'', JNum 850000),
      (''monthly_burn_rate'', JNum 450000),
      (''team_size'', JNum 18),
      (''timeline_for_closing'', JStr ''3-6 months''),
      (''submitted_at'', JStr submitted),
      (''ai_score'', JNum (41 / 5)),
      (''risk_level'', JStr ''LOW''),
      (''status'', JStr ''PENDING''),
      (''key_insights'',
         JArr [JStr ''Strong product-market fit indicators'',
               JStr ''Experienced founding team with domain expertise'',
               JStr ''Healthy unit economics with 75% gross margin'',
               JStr ''Growing market with clear differentiation'']),
      (''red_flags'', JArr []),
      (''detailed_analysis'',
         JObj [(''market_size'', JStr ''Large addressable market with growth potential''),
               (''competition'', JStr ''Moderate competition with clear differentiation''),
               (''team_assessment'', JStr ''Strong technical and business expertise''),
               (''financial_health'', JStr ''Positive unit economics with sustainable growth''),
               (''risk_factors'', JStr ''Low overall risk profile'')]),
      (''documents'',
         JArr [JObj [(''filename'', JStr ''pitch_deck.pdf''),
                     (''type'', JStr ''application/pdf'')],
               JObj [(''filename'', JStr ''financial_model.xlsx''),
                     (''type'', JStr (''application/vnd.openxmlformats-officedocument''
                                        @ ''.spreadsheetml.sheet''))],
               JObj [(''filename'', JStr ''business_plan.docx''),
                     (''type'', JStr (''application/vnd.openxmlformats-officedocument''
                                        @ ''.wordprocessingml.document''))]])]"

text \<open>The handler reads nothing but the route parameter \<open>id\<close> and the clock
  (\<^verbatim>\<open>new Date().toISOString()\<close>, the argument \<open>now\<close>); the store is not in its scope.\<close>

definition GET_application :: "string \<Rightarrow> string \<Rightarrow> server \<Rightarrow> response \<times> server" where
  "GET_application now id' st = (json_response 200 (mockApplication id' now), st)"

text \<open>The update handler: \<^verbatim>\<open>await request.json()\<close> (any JSON value, or a rejection), a log
  line, and the fixed answer.\<close>

fun PATCH :: "string \<Rightarrow> js_error + json \<Rightarrow> server \<Rightarrow> response \<times> server" where
  "PATCH id' (Inl e) st =
     (internal_server_error, log (Console_error ''Error updating application:'' e) st)"
| "PATCH id' (Inr updates) st =
     (json_response 200
        [(''success'', JBool True), (''message'', JStr ''Application updated successfully'')],
      log (Updating_application id' updates) st)"

text \<open>The identifiers of the stored applications.\<close>

definition stored_ids :: "server \<Rightarrow> json option list" where
  "stored_ids st = map (\<lambda>app. get_prop app ''id'') (applications st)"

section \<open>The background pipeline\<close>

text \<open>
  The Status Aggregator and the Document Extractor run in the backend service, whose code is
  not among the sources (only \<^verbatim>\<open>backend/README.md\<close> is). They are modelled here from the
  specification's sections 3, 4.3 and 4.4.
\<close>

text \<open>Modelled from the spec: the per-document state (section 3), not in the sources.\<close>

datatype extraction_status = Doc_PENDING | Doc_PROCESSING | Doc_SUCCESS | Doc_FAILED

text \<open>Modelled from the spec: the application-level aggregate state (section 3), not in the
  sources.\<close>

datatype processing_status = App_PENDING | App_PROCESSING | App_COMPLETED | App_FAILED

text \<open>Modelled from the spec: the Document of section 3 (its binary content is left out, nothing
  below reads it).\<close>

record document =
  field :: string
  extraction_status :: extraction_status
  extracted_content :: "string option"
  extraction_error :: "string option"
  attempt_count :: nat

text \<open>Modelled from the spec: the Application of section 3, times as numbers.\<close>

record application =
  app_id :: string
  submitted_at :: nat
  documents :: "document list"
  processing_status :: processing_status
  processing_started_at :: "nat option"
  processing_completed_at :: "nat option"

subsection \<open>Status Aggregator\<close>

text \<open>Modelled from the spec: "still PENDING or PROCESSING" of section 4.4.\<close>

fun in_flight :: "extraction_status \<Rightarrow> bool" where
  "in_flight Doc_PENDING = True"
| "in_flight Doc_PROCESSING = True"
| "in_flight Doc_SUCCESS = False"
| "in_flight Doc_FAILED = False"

text \<open>Modelled from the spec: step (b) of section 4.4, "if any document is still PENDING or
  PROCESSING, PROCESSING; else (all terminal) COMPLETED", the aggregator's code being absent.\<close>

definition recompute_status :: "document list \<Rightarrow> processing_status" where
  "recompute_status docs =
     (if list_ex (\<lambda>d. in_flight (extraction_status d)) docs then App_PROCESSING
      else App_COMPLETED)"

text \<open>Modelled from the spec: the terminal report an extractor hands to the aggregator, with
  its payload (extracted text, or the failure's reason).\<close>

datatype terminal_report = Report_SUCCESS string | Report_FAILED string

text \<open>Modelled from the spec: step (a) of section 4.4, writing the terminal status and its
  content or error into the document.\<close>

fun write_terminal :: "terminal_report \<Rightarrow> document \<Rightarrow> document" where
  "write_terminal (Report_SUCCESS text) d =
     d\<lparr>extraction_status := Doc_SUCCESS, extracted_content := Some text\<rparr>"
| "write_terminal (Report_FAILED reason) d =
     d\<lparr>extraction_status := Doc_FAILED, extraction_error := Some reason\<rparr>"

text \<open>Modelled from the spec: one pass of the Status Aggregator of section 4.4 on the report
  for document \<open>i\<close> at time \<open>now\<close>: write the document, recompute the status from all documents,
  and set \<open>processing_completed_at\<close> the first time COMPLETED is reached. A report for an index
  the application does not have writes no document.\<close>

definition aggregate :: "nat \<Rightarrow> nat \<Rightarrow> terminal_report \<Rightarrow> application \<Rightarrow> application" where
  "aggregate now i r app =
     (let docs = (if i < length (documents app)
                  then (documents app)[i := write_terminal r (documents app ! i)]
                  else documents app);
          st = recompute_status docs
      in app\<lparr>documents := docs,
             processing_status := st,
             processing_completed_at :=
               (if st = App_COMPLETED
                then (case processing_completed_at app of None \<Rightarrow> Some now | Some t \<Rightarrow> Some t)
                else processing_completed_at app)\<rparr>)"

subsection \<open>Document Extractor\<close>

text \<open>Modelled from the spec: the three outcomes of the Extraction Capability (sections 4.3
  and 6); \<open>Success\<close> carries the text and the metadata.\<close>

datatype outcome = Success string string | RetryableFailure string | PermanentFailure string

text \<open>Modelled from the spec: the extractor's configuration, "max_attempts (default 3)" and
  the backoff's base delay and cap.\<close>

record extractor_config =
  max_attempts :: nat
  base_delay :: nat
  max_delay :: nat

text \<open>Modelled from the spec: what one run of the extractor does, in order: invocations of the
  capability (numbered by attempt), backoff waits, and the terminal status it reports.\<close>

datatype event = Invoke nat | Backoff nat | Terminal extraction_status

text \<open>Modelled from the spec: "base delay times 2^attempt, capped".\<close>

definition backoff_delay :: "extractor_config \<Rightarrow> nat \<Rightarrow> nat" where
  "backoff_delay cfg attempt = min (max_delay cfg) (base_delay cfg * 2 ^ attempt)"

text \<open>
  Modelled from the spec: the Document Extractor of section 4.3, its code being absent.
  \<open>capability n\<close> is what the Extraction Capability returns at the attempt numbered \<open>n\<close>. Each
  attempt increments \<open>attempt_count\<close> before the invocation; a success or a permanent failure is
  terminal at once; a retryable failure is retried after the backoff delay while
  \<open>attempt_count < max_attempts\<close>, and is converted to FAILED with the last error otherwise.
\<close>

function extract_document ::
    "extractor_config \<Rightarrow> (nat \<Rightarrow> outcome) \<Rightarrow> document \<Rightarrow> document \<times> event list" where
  "extract_document cfg capability doc =
     (let n = attempt_count doc + 1;
          doc1 = doc\<lparr>extraction_status := Doc_PROCESSING, attempt_count := n\<rparr>
      in case capability n of
           Success text metadata \<Rightarrow>
             (doc1\<lparr>extraction_status := Doc_SUCCESS, extracted_content := Some text\<rparr>,
              [Invoke n, Terminal Doc_SUCCESS])
         | PermanentFailure reason \<Rightarrow>
             (doc1\<lparr>extraction_status := Doc_FAILED, extraction_error := Some reason\<rparr>,
              [Invoke n, Terminal Doc_FAILED])
         | RetryableFailure reason \<Rightarrow>
             if n < max_attempts cfg
             then (case extract_document cfg capability doc1 of
                     (d, evs) \<Rightarrow> (d, Invoke n # Backoff (backoff_delay cfg n) # evs))
             else (doc1\<lparr>extraction_status := Doc_FAILED, extraction_error := Some reason\<rparr>,
                   [Invoke n, Terminal Doc_FAILED]))"
  by pat_completeness auto
termination
  by (relation "measure (\<lambda>(cfg, capability, doc). max_attempts cfg - attempt_count doc)") auto

declare extract_document.simps [simp del]

text \<open>The invocations among the events of a run.\<close>

fun is_invoke :: "event \<Rightarrow> bool" where
  "is_invoke (Invoke n) = True"
| "is_invoke e = False"

text \<open>The events of the failed attempts \<open>lo\<close> up to \<open>hi - 1\<close>, each followed by its backoff.\<close>

definition retries :: "extractor_config \<Rightarrow> nat \<Rightarrow> nat \<Rightarrow> event list" where
  "retries cfg lo hi = concat (map (\<lambda>n. [Invoke n, Backoff (backoff_delay cfg n)]) [lo..<hi])"

section \<open>Concrete requests and stores\<close>

text \<open>Inputs on which the handlers are run below: a clock reading, two valid submissions (the
  first with an empty list of documents), two submissions whose funding text cannot be built
  (the amount has a property \<open>toLocaleString\<close> of its own; the currency has a property \<open>toString\<close>
  of its own), the empty store, a store of three applications, and the decoration of one
  listed entry.\<close>

definition sample_clock :: clock where
  "sample_clock = \<lparr>date_now = 1700000000000, iso_now = ''2023-11-14T22:13:20.000Z''\<rparr>"

definition sample_payload :: obj where
  "sample_payload =
     [(''company_name'', JStr ''Acme''),
      (''primary_business_model'', JStr ''SaaS''),
      (''current_stage'', JStr ''MVP''),
      (''funding_amount_seeking'', JNum 1000),
      (''funding_currency'', JStr ''INR''),
      (''documents'', JArr [])]"

definition other_payload :: obj where
  "other_payload =
     [(''company_name'', JStr ''Bolt''),
      (''primary_business_model'', JStr ''Marketplace''),
      (''current_stage'', JStr ''Idea''),
      (''funding_amount_seeking'', JNum 5),
      (''funding_currency'', JStr ''USD'')]"

definition shadowed_amount_payload :: obj where
  "shadowed_amount_payload =
     [(''company_name'', JStr ''Acme''),
      (''primary_business_model'', JStr ''SaaS''),
      (''current_stage'', JStr ''MVP''),
      (''funding_amount_seeking'', JObj [(''toLocaleString'', JNum 1)]),
      (''funding_currency'', JStr ''INR'')]"

definition shadowed_currency_payload :: obj where
  "shadowed_currency_payload =
     [(''company_name'', JStr ''Acme''),
      (''primary_business_model'', JStr ''SaaS''),
      (''current_stage'', JStr ''MVP''),
      (''funding_amount_seeking'', JNum 1000),
      (''funding_currency'', JObj [(''toString'', JNum 1)])]"

definition empty_server :: server where
  "empty_server = \<lparr>applications = [], console = []\<rparr>"

definition three_stored :: server where
  "three_stored =
     \<lparr>applications = [[(''id'', JStr ''a'')], [(''id'', JStr ''b'')], [(''id'', JStr ''c'')]],
      console = []\<rparr>"

definition sample_decoration :: decoration where
  "sample_decoration = \<lparr>score = 33 / 4, risk_index = 0, status_index = 1, no_red_flags = False\<rparr>"

text \<open>The keys the listing writes into each entry it returns.\<close>

definition decoration_keys :: "string list" where
  "decoration_keys = [''ai_score'', ''risk_level'', ''status'', ''key_insights'', ''red_flags'']"

text \<open>An application with one failed and one running document, a fresh document, and the
  extractor's default configuration.\<close>

definition failed_doc :: "string \<Rightarrow> document" where
  "failed_doc f = \<lparr>field = f, extraction_status = Doc_FAILED, extracted_content = None,
                   extraction_error = Some ''corrupt file'', attempt_count = 1\<rparr>"

definition processing_doc :: "string \<Rightarrow> document" where
  "processing_doc f = \<lparr>field = f, extraction_status = Doc_PROCESSING, extracted_content = None,
                   extraction_error = None, attempt_count = 1\<rparr>"

definition sample_application :: application where
  "sample_application =
     \<lparr>app_id = ''a1'', submitted_at = 0,
      documents = [failed_doc ''pitch_deck'', processing_doc ''other_pdfs''],
      processing_status = App_PROCESSING, processing_started_at = Some 1,
      processing_completed_at = None\<rparr>"

definition fresh_document :: document where
  "fresh_document = \<lparr>field = ''pitch_deck'', extraction_status = Doc_PENDING,
     extracted_content = None, extraction_error = None, attempt_count = 0\<rparr>"

definition default_config :: extractor_config where
  "default_config = \<lparr>max_attempts = 3, base_delay = 1000, max_delay = 30000\<rparr>"

section \<open>Lemmas\<close>

lemma get_set_prop: "get_prop (set_prop k v ob) k' = (if k' = k then Some v else get_prop ob k')"
  by (simp add: get_prop_def set_prop_def update_conv')

subsection \<open>Decimal text of a number, and reading it back\<close>

lemma dec_nat_ne: "dec_nat n \<noteq> []"
  by (subst dec_nat.simps) simp

lemma below_ten: "(d::nat) < 10 \<Longrightarrow> d \<in> {0, 1, 2, 3, 4, 5, 6, 7, 8, 9}"
  by auto

lemma digit_value_digit_char: "d < 10 \<Longrightarrow> digit_value (digit_char d) = Some d"
  by (drule below_ten) (auto simp add: digit_value_def digit_char_def)

lemma is_digit_digit_char: "d < 10 \<Longrightarrow> is_digit 10 (digit_char d)"
  by (simp add: is_digit_def digit_value_digit_char)

lemma not_ws_digit_char:
  "d < 10 \<Longrightarrow>
   \<not> is_ws1 (digit_char d) \<and> \<not> is_ws2 (digit_char d) b \<and> \<not> is_ws3 (digit_char d) b c"
  by (drule below_ten) (auto simp add: is_ws1_def is_ws2_def is_ws3_def digit_char_def)

lemma skip_whitespace_digit_char:
  assumes "d < 10"
  shows "skip_whitespace (digit_char d # cs) = digit_char d # cs"
proof (cases cs)
  case Nil
  then show ?thesis using not_ws_digit_char [OF assms] by simp
next
  case (Cons b bs)
  then show ?thesis using not_ws_digit_char [OF assms] by (cases bs) simp_all
qed

lemma not_sign_digit_char: "d < 10 \<Longrightarrow> digit_char d \<noteq> CHR ''-'' \<and> digit_char d \<noteq> CHR ''+''
   \<and> digit_char d \<noteq> CHR ''x'' \<and> digit_char d \<noteq> CHR ''X''"
  by (drule below_ten) (auto simp add: digit_char_def)

lemma dec_nat_digits: "c \<in> set (dec_nat n) \<Longrightarrow> \<exists>d<10. c = digit_char d"
proof (induction n rule: dec_nat.induct)
  case (1 n)
  show ?case
  proof (cases "n < 10")
    case True
    with "1.prems" show ?thesis by (subst (asm) dec_nat.simps) auto
  next
    case False
    with "1.prems" have "c \<in> set (dec_nat (n div 10)) \<or> c = digit_char (n mod 10)"
      by (subst (asm) dec_nat.simps) auto
    then show ?thesis
    proof
      assume "c \<in> set (dec_nat (n div 10))"
      with False "1.IH" show ?thesis by simp
    next
      assume "c = digit_char (n mod 10)"
      moreover have "n mod 10 < 10" by simp
      ultimately show ?thesis by blast
    qed
  qed
qed

lemma digits_value_append:
  "\<forall>c\<in>set xs. digit_value c \<noteq> None \<Longrightarrow>
   digits_value r acc (xs @ ys) = digits_value r (digits_value r acc xs) ys"
  by (induction xs arbitrary: acc) (auto split: option.splits)

lemma digits_value_dec_nat: "digits_value 10 0 (dec_nat n) = n"
proof (induction n rule: dec_nat.induct)
  case (1 n)
  show ?case
  proof (cases "n < 10")
    case True
    then show ?thesis
      by (subst dec_nat.simps) (simp add: digit_value_digit_char)
  next
    case False
    have valid: "\<forall>c\<in>set (dec_nat (n div 10)). digit_value c \<noteq> None"
      using dec_nat_digits digit_value_digit_char by fastforce
    have "digits_value 10 0 (dec_nat n)
          = digits_value 10 (digits_value 10 0 (dec_nat (n div 10))) [digit_char (n mod 10)]"
      using False by (subst dec_nat.simps) (simp add: digits_value_append [OF valid])
    also have "\<dots> = (n div 10) * 10 + n mod 10"
      using False "1.IH" by (simp add: digit_value_digit_char)
    finally show ?thesis by simp
  qed
qed

lemma takeWhile_all: "\<forall>c\<in>set xs. P c \<Longrightarrow> takeWhile P xs = xs"
  by (induction xs) auto

lemma parseInt_dec_nat: "parseInt (dec_nat n) = to_number (int n)"
proof -
  obtain c cs where cs: "dec_nat n = c # cs"
    using dec_nat_ne [of n] by (cases "dec_nat n") auto
  have digs: "\<forall>x\<in>set (dec_nat n). \<exists>d<10. x = digit_char d"
    using dec_nat_digits by blast
  from cs digs obtain d where d: "d < 10" "c = digit_char d" by auto
  have ws: "skip_whitespace (dec_nat n) = dec_nat n"
    using cs d skip_whitespace_digit_char by simp
  have sign: "strip_sign (dec_nat n) = (1, dec_nat n)"
    using cs d not_sign_digit_char by simp
  have pre: "strip_prefix (dec_nat n) = (10, dec_nat n)"
  proof (cases cs)
    case Nil
    with cs show ?thesis by simp
  next
    case (Cons b bs)
    with cs digs obtain e where "e < 10" "b = digit_char e" by auto
    with Cons cs not_sign_digit_char show ?thesis by simp
  qed
  have tw: "takeWhile (is_digit 10) (dec_nat n) = dec_nat n"
    using digs is_digit_digit_char by (intro takeWhile_all) auto
  show ?thesis
    by (simp add: parseInt_def ws sign pre tw dec_nat_ne digits_value_dec_nat)
qed

lemma dec_nat_inject: "dec_nat a = dec_nat b \<Longrightarrow> a = b"
proof -
  assume "dec_nat a = dec_nat b"
  then have "digits_value 10 0 (dec_nat a) = digits_value 10 0 (dec_nat b)" by simp
  then show "a = b" by (simp add: digits_value_dec_nat)
qed

lemma dec_nat_no_minus: "dec_nat n \<noteq> CHR ''-'' # cs"
proof
  assume eq: "dec_nat n = CHR ''-'' # cs"
  then have "CHR ''-'' \<in> set (dec_nat n)" by simp
  then obtain d where "d < 10" "CHR ''-'' = digit_char d"
    using dec_nat_digits by blast
  then show False using not_sign_digit_char [of d] by simp
qed

lemma toString_inject: "toString i = toString j \<Longrightarrow> i = j"
proof -
  assume eq: "toString i = toString j"
  consider "i < 0" "j < 0" | "i < 0" "\<not> j < 0" | "\<not> i < 0" "j < 0" | "\<not> i < 0" "\<not> j < 0"
    by blast
  then show "i = j"
  proof cases
    case 1
    with eq have "dec_nat (nat (- i)) = dec_nat (nat (- j))" by (simp add: toString_def)
    then have "nat (- i) = nat (- j)" by (rule dec_nat_inject)
    with 1 show ?thesis by simp
  next
    case 2
    with eq have "dec_nat (nat j) = CHR ''-'' # dec_nat (nat (- i))" by (simp add: toString_def)
    then show ?thesis using dec_nat_no_minus by blast
  next
    case 3
    with eq have "dec_nat (nat i) = CHR ''-'' # dec_nat (nat (- j))" by (simp add: toString_def)
    then show ?thesis using dec_nat_no_minus by blast
  next
    case 4
    with eq have "dec_nat (nat i) = dec_nat (nat j)" by (simp add: toString_def)
    then have "nat i = nat j" by (rule dec_nat_inject)
    with 4 show ?thesis by simp
  qed
qed

subsection \<open>The sample submission, evaluated\<close>

lemma toString_sample: "toString 1700000000000 = ''1700000000000''"
  by (simp add: toString_def dec_nat.simps digit_char_def)

lemma sample_valid: "\<not> missing_required sample_payload"
  by (simp add: missing_required_def sample_payload_def get_prop_def)

lemma other_valid: "\<not> missing_required other_payload"
  by (simp add: missing_required_def other_payload_def get_prop_def)

lemma sample_funding:
  "funding_text_ok (get_prop sample_payload ''funding_currency'')
     (get_prop sample_payload ''funding_amount_seeking'')"
  by (simp add: sample_payload_def get_prop_def)

lemma other_funding:
  "funding_text_ok (get_prop other_payload ''funding_currency'')
     (get_prop other_payload ''funding_amount_seeking'')"
  by (simp add: other_payload_def get_prop_def)

lemma POST_sample:
  "POST sample_clock (Inr sample_payload) empty_server =
    (json_response 201
       [(''success'', JBool True), (''id'', JStr ''1700000000000''),
        (''message'', JStr ''Application submitted successfully'')],
     \<lparr>applications =
        [sample_payload @ [(''id'', JStr ''1700000000000''),
                           (''submitted_at'', JStr ''2023-11-14T22:13:20.000Z'')]],
      console =
        [New_application_received (Some (JStr ''1700000000000'')) (Some (JStr ''Acme''))
           (Some (JStr ''MVP'')) (Some (JStr ''INR'')) (Some (JNum 1000))]\<rparr>)"
  by (simp add: sample_valid sample_funding new_application_def get_set_prop log_def
      empty_server_def sample_clock_def toString_sample)
     (simp add: sample_payload_def get_prop_def set_prop_def log_def)

text \<open>The log line raises, after the push, on an amount whose \<open>toLocaleString\<close> is a property
  of its own and on a currency whose \<open>toString\<close> is: the answer is 500 and the record stays
  stored.\<close>

lemma POST_shadowed_amount:
  "fst (POST sample_clock (Inr shadowed_amount_payload) empty_server) = internal_server_error
   \<and> applications (snd (POST sample_clock (Inr shadowed_amount_payload) empty_server))
       = [new_application sample_clock shadowed_amount_payload]
   \<and> console (snd (POST sample_clock (Inr shadowed_amount_payload) empty_server))
       = [Console_error ''Error processing application:'' TypeError]"
proof -
  have valid: "\<not> missing_required shadowed_amount_payload"
    by (simp add: missing_required_def shadowed_amount_payload_def get_prop_def)
  have raises: "\<not> funding_text_ok (get_prop shadowed_amount_payload ''funding_currency'')
     (get_prop shadowed_amount_payload ''funding_amount_seeking'')"
    by (simp add: shadowed_amount_payload_def get_prop_def)
  show ?thesis
    by (simp add: valid raises log_def empty_server_def)
qed

lemma POST_shadowed_currency:
  "fst (POST sample_clock (Inr shadowed_currency_payload) empty_server) = internal_server_error
   \<and> applications (snd (POST sample_clock (Inr shadowed_currency_payload) empty_server))
       = [new_application sample_clock shadowed_currency_payload]
   \<and> console (snd (POST sample_clock (Inr shadowed_currency_payload) empty_server))
       = [Console_error ''Error processing application:'' TypeError]"
proof -
  have valid: "\<not> missing_required shadowed_currency_payload"
    by (simp add: missing_required_def shadowed_currency_payload_def get_prop_def)
  have raises: "\<not> funding_text_ok (get_prop shadowed_currency_payload ''funding_currency'')
     (get_prop shadowed_currency_payload ''funding_amount_seeking'')"
    by (simp add: shadowed_currency_payload_def get_prop_def)
  show ?thesis
    by (simp add: valid raises log_def empty_server_def)
qed

text \<open>A submission of the declared types (the amount a number, the currency a string or
  absent) has its funding text built.\<close>

lemma funding_text_ok_typed:
  "funding_text_ok (Some (JStr c)) (Some (JNum a)) \<and> funding_text_ok None (Some (JNum a))"
  by simp

subsection \<open>Numbers below and above \<open>2^53\<close>\<close>

lemma exponent_shift_small: "n < 2 ^ 53 \<Longrightarrow> exponent_shift n = 0"
  by (subst exponent_shift.simps) simp

lemma round_nat_small: "n < 2 ^ 53 \<Longrightarrow> round_nat n = n"
  by (simp add: round_nat_def exponent_shift_small)

lemma to_number_small:
  assumes "n < 2 ^ 53"
  shows "to_number (int n) = Fin (int n)"
proof -
  have "(2::nat) ^ 53 \<le> 2 ^ 1024" by (rule power_increasing) simp_all
  with assms have "n < 2 ^ 1024" by (rule less_le_trans)
  then show ?thesis
    using assms by (simp add: to_number_def round_nat_small)
qed

lemma shift_quotient:
  "2 ^ 53 \<le> n \<Longrightarrow> 0 < exponent_shift n \<and> 2 ^ 52 \<le> n div 2 ^ exponent_shift n"
proof (induction n rule: exponent_shift.induct)
  case (1 n)
  from "1.prems" have unfold: "exponent_shift n = Suc (exponent_shift (n div 2))"
    by (subst exponent_shift.simps) simp
  have quot: "n div (2 * 2 ^ k) = n div 2 div 2 ^ k" for k
    by (simp add: div_mult2_eq)
  show ?case
  proof (cases "n div 2 < 2 ^ 53")
    case True
    then have "exponent_shift (n div 2) = 0" by (rule exponent_shift_small)
    moreover from "1.prems" have "(2::nat) ^ 52 \<le> n div 2" by simp
    ultimately show ?thesis by (simp add: unfold)
  next
    case False
    then have big: "2 ^ 53 \<le> n div 2" by simp
    from "1.prems" have "\<not> n < 2 ^ 53" by simp
    from "1.IH" [OF this big]
    have "2 ^ 52 \<le> n div 2 div 2 ^ exponent_shift (n div 2)" by simp
    then show ?thesis by (simp add: unfold quot)
  qed
qed

lemma round_nat_big:
  assumes "2 ^ 53 \<le> n"
  shows "2 ^ 53 \<le> round_nat n"
proof -
  define e where "e = exponent_shift n"
  define q where "q = n div 2 ^ e"
  from shift_quotient [OF assms] have e: "0 < e" and q: "2 ^ 52 \<le> q"
    by (simp_all add: e_def q_def)
  from e have "(2::nat) ^ 1 \<le> 2 ^ e" by (intro power_increasing) simp_all
  then have "(2::nat) \<le> 2 ^ e" by simp
  with q have "2 ^ 52 * 2 \<le> q * 2 ^ e" by (rule mult_le_mono)
  then have low: "2 ^ 53 \<le> q * 2 ^ e" by simp
  have "q * 2 ^ e \<le> round_nat n"
    by (simp add: round_nat_def Let_def e_def [symmetric] q_def [symmetric])
  with low show ?thesis by (rule le_trans)
qed

lemma to_number_big:
  assumes "2 ^ 53 \<le> n"
  shows "index_at_least (2 ^ 53) (to_number (int n))"
proof -
  from round_nat_big [OF assms] have "int (2 ^ 53) \<le> int (round_nat n)"
    by (simp only: of_nat_le_iff)
  then show ?thesis
    by (simp add: to_number_def Let_def)
qed

lemma relative_index_big:
  "index_at_least b x \<Longrightarrow> len \<le> b \<Longrightarrow> relative_index len x = len"
  by (cases x) auto

lemma num_add_big:
  assumes "index_at_least (2 ^ 53) y"
  shows "index_at_least (2 ^ 53) (num_add (Fin (int a)) y)"
proof (cases y)
  case (Fin m)
  with assms have m: "int (2 ^ 53) \<le> m" by simp
  then have "int a + m = int (a + nat m)" by simp
  moreover from m have "2 ^ 53 \<le> a + nat m" by simp
  ultimately show ?thesis
    using Fin to_number_big [of "a + nat m"] by simp
qed (use assms in simp_all)

lemma slice_to_end:
  assumes "index_at_least b e" and "length xs \<le> b" and "length xs \<le> off + lmt"
  shows "slice xs (Fin (int off)) e = take lmt (drop off xs)"
proof -
  have final: "relative_index (length xs) e = length xs"
    using assms(1,2) by (rule relative_index_big)
  show ?thesis
  proof (cases "off < length xs")
    case True
    with assms(3) have "length (drop off xs) \<le> lmt" by simp
    then have "take lmt (drop off xs) = drop off xs" by simp
    with True show ?thesis
      by (simp add: slice_def final Let_def min_def)
  next
    case False
    then show ?thesis by (simp add: slice_def final Let_def)
  qed
qed

lemma slice_nonneg:
  "slice xs (Fin (int off)) (Fin (int off + int lmt)) = take lmt (drop off xs)"
proof (cases "off < length xs")
  case True
  then have "min (off + lmt) (length xs) - off = min lmt (length (drop off xs))"
    by auto
  then show ?thesis
    using True by (simp add: slice_def Let_def nat_add_distrib min_def)
next
  case False
  then show ?thesis
    by (simp add: slice_def Let_def)
qed

lemma slice_of_numbers:
  assumes "length xs \<le> 2 ^ 53"
  shows "slice xs (to_number (int off)) (num_add (to_number (int off)) (to_number (int lmt)))
           = take lmt (drop off xs)"
proof (cases "off < 2 ^ 53")
  case off: True
  then have start: "to_number (int off) = Fin (int off)" by (rule to_number_small)
  show ?thesis
  proof (cases "lmt < 2 ^ 53")
    case lmt: True
    then have l: "to_number (int lmt) = Fin (int lmt)" by (rule to_number_small)
    have sum: "int off + int lmt = int (off + lmt)" by simp
    show ?thesis
    proof (cases "off + lmt < 2 ^ 53")
      case True
      then have "to_number (int (off + lmt)) = Fin (int (off + lmt))" by (rule to_number_small)
      then show ?thesis
        using slice_nonneg [of xs off lmt] by (simp add: start l)
    next
      case False
      then have "index_at_least (2 ^ 53) (to_number (int (off + lmt)))"
        by (intro to_number_big) simp
      moreover from False assms have "length xs \<le> off + lmt" by simp
      ultimately show ?thesis
        using slice_to_end [OF _ assms, of _ off lmt] by (simp add: start l sum del: of_nat_add)
    qed
  next
    case False
    then have "index_at_least (2 ^ 53) (to_number (int lmt))"
      by (intro to_number_big) simp
    then have "index_at_least (2 ^ 53) (num_add (Fin (int off)) (to_number (int lmt)))"
      by (rule num_add_big)
    moreover from False assms have "length xs \<le> off + lmt" by simp
    ultimately show ?thesis
      using slice_to_end [OF _ assms, of _ off lmt] by (simp add: start)
  qed
next
  case False
  then have "index_at_least (2 ^ 53) (to_number (int off))"
    by (intro to_number_big) simp
  then have k: "relative_index (length xs) (to_number (int off)) = length xs"
    using assms by (rule relative_index_big)
  from False assms have "length xs \<le> off" by simp
  then show ?thesis by (simp add: slice_def k Let_def)
qed

subsection \<open>Slices and decorated entries\<close>

lemma get_assign: "get_prop (assign k v ob) k' = (if k' = k then v else get_prop ob k')"
  by (cases v) (simp_all add: get_prop_def set_prop_def update_conv' delete_conv')

lemma enhance_keeps:
  "k \<notin> set decoration_keys \<Longrightarrow> get_prop (enhance d app) k = get_prop app k"
  by (simp add: enhance_def get_assign decoration_keys_def del: assign.simps)

lemma length_enhance_all: "length (enhance_all random n apps) = length apps"
  by (induction apps arbitrary: n) simp_all

lemma nth_enhance_all:
  "i < length apps \<Longrightarrow> enhance_all random n apps ! i = enhance (random (n + i)) (apps ! i)"
proof (induction apps arbitrary: n i)
  case Nil
  then show ?case by simp
next
  case (Cons a apps)
  show ?case
  proof (cases i)
    case 0
    then show ?thesis by simp
  next
    case (Suc j)
    with Cons.prems have "j < length apps" by simp
    from Cons.IH [OF this, of "Suc n"] Suc show ?thesis by simp
  qed
qed

lemma or_default_dec_nat: "or_default (Some (dec_nat n)) d = dec_nat n"
  by (simp add: or_default_def dec_nat_ne)

lemma parse_default_limit: "parseInt ''10'' = to_number (int 10)"
  using parseInt_dec_nat [of 10] by (simp add: dec_nat.simps digit_char_def)

lemma parse_default_offset: "parseInt ''0'' = to_number (int 0)"
  using parseInt_dec_nat [of 0] by (simp add: dec_nat.simps digit_char_def)

lemma GET_applications_parsed:
  assumes "parseInt (or_default (map_of query ''limit'') ''10'') = to_number (int lmt)"
    and "parseInt (or_default (map_of query ''offset'') ''0'') = to_number (int off)"
    and "length (applications st) \<le> 2 ^ 53"
  shows "GET_applications random query st =
           (json_response 200
              [(''applications'',
                  JArr (map JObj (enhance_all random 0 (take lmt (drop off (applications st)))))),
               (''total'', JNum (of_nat (length (applications st)))),
               (''limit'', num_json (to_number (int lmt))),
               (''offset'', num_json (to_number (int off)))], st)"
  by (simp add: GET_applications_def assms(1,2) slice_of_numbers [OF assms(3)])

text \<open>What the handler echoes is the parsed number, not the text it was given: above \<open>2^53\<close>
  a limit is rounded to the nearest double.\<close>

lemma limit_echo_rounded:
  "get_prop (body (fst (GET_applications random [(''limit'', ''9007199254740993'')] st))) ''limit''
     = Some (JNum 9007199254740992)"
proof -
  have digits: "dec_nat 9007199254740993 = ''9007199254740993''"
    by (simp add: dec_nat.simps digit_char_def)
  have "parseInt ''9007199254740993'' = to_number (int 9007199254740993)"
    using parseInt_dec_nat [of 9007199254740993] by (simp only: digits)
  also have "\<dots> = Fin 9007199254740992"
    by (simp add: to_number_def round_nat_def exponent_shift.simps Let_def)
  finally show ?thesis
    by (simp add: GET_applications_def or_default_def json_response_def get_prop_def Let_def)
qed

subsection \<open>The aggregator and the extractor\<close>

lemma processing_status_aggregate:
  "processing_status (aggregate now i r app) = recompute_status (documents (aggregate now i r app))"
  by (simp add: aggregate_def Let_def)

lemma recompute_status_map:
  "recompute_status docs =
     (if list_ex in_flight (map extraction_status docs) then App_PROCESSING else App_COMPLETED)"
  by (simp add: recompute_status_def list_ex_iff)

lemma recompute_processing:
  "\<exists>d\<in>set docs. in_flight (extraction_status d) \<Longrightarrow> recompute_status docs = App_PROCESSING"
  by (simp add: recompute_status_def list_ex_iff)

lemma recompute_completed:
  "\<forall>d\<in>set docs. \<not> in_flight (extraction_status d) \<Longrightarrow> recompute_status docs = App_COMPLETED"
  by (simp add: recompute_status_def list_ex_iff)

lemma sample_last_report:
  "documents (aggregate 9 1 (Report_FAILED ''timeout'') sample_application)
      = [failed_doc ''pitch_deck'',
         (processing_doc ''other_pdfs'')
           \<lparr>extraction_status := Doc_FAILED, extraction_error := Some ''timeout''\<rparr>]"
  by (simp add: aggregate_def Let_def sample_application_def)

lemma extract_always_retryable:
  assumes "\<forall>n. capability n = RetryableFailure (why n)"
  shows "attempt_count doc < max_attempts cfg \<Longrightarrow>
         extract_document cfg capability doc =
           (doc\<lparr>extraction_status := Doc_FAILED, attempt_count := max_attempts cfg,
                extraction_error := Some (why (max_attempts cfg))\<rparr>,
            retries cfg (attempt_count doc + 1) (max_attempts cfg)
              @ [Invoke (max_attempts cfg), Terminal Doc_FAILED])"
proof (induction "max_attempts cfg - attempt_count doc" arbitrary: doc)
  case 0
  then show ?case by simp
next
  case (Suc k)
  let ?n = "attempt_count doc + 1"
  let ?doc1 = "doc\<lparr>extraction_status := Doc_PROCESSING, attempt_count := ?n\<rparr>"
  have cap: "capability ?n = RetryableFailure (why ?n)" using assms by simp
  show ?case
  proof (cases "?n < max_attempts cfg")
    case True
    have k: "k = max_attempts cfg - attempt_count ?doc1" using Suc.hyps(2) by simp
    have lt: "attempt_count ?doc1 < max_attempts cfg" using True by simp
    have ih: "extract_document cfg capability ?doc1 =
           (?doc1\<lparr>extraction_status := Doc_FAILED, attempt_count := max_attempts cfg,
                extraction_error := Some (why (max_attempts cfg))\<rparr>,
            retries cfg (attempt_count ?doc1 + 1) (max_attempts cfg)
              @ [Invoke (max_attempts cfg), Terminal Doc_FAILED])"
      by (rule Suc.hyps(1) [OF k lt])
    have up: "[?n..<max_attempts cfg] = ?n # [?n + 1..<max_attempts cfg]"
      using True by (simp add: upt_conv_Cons)
    show ?thesis
      using cap True ih up
      by (subst extract_document.simps) (simp add: Let_def retries_def)
  next
    case False
    with Suc.prems have eq: "?n = max_attempts cfg" by simp
    have "retries cfg ?n (max_attempts cfg) = []"
      using eq by (simp add: retries_def)
    then show ?thesis
      using eq cap by (subst extract_document.simps) (simp add: Let_def)
  qed
qed

lemma filter_invoke_retries:
  "filter is_invoke (retries cfg lo hi) = map Invoke [lo..<hi]"
  by (induction hi) (simp_all add: retries_def)

lemma terminal_not_in_retries: "Terminal s \<notin> set (retries cfg lo hi)"
  by (auto simp add: retries_def)


section \<open>Submission\<close>

text \<open>
  C1. A submission in which one of the three required fields (company name, primary business
  model, current stage) is missing (absent or null) or empty is answered 400 with the
  validation error "Missing required fields", and the server (the stored applications, and the
  console too) is exactly as before.
\<close>

theorem submit_missing_field_rejected:
  assumes "f \<in> {''company_name'', ''primary_business_model'', ''current_stage''}"
    and "get_prop data f = None \<or> get_prop data f = Some JNull
         \<or> get_prop data f = Some (JStr '''')"
  shows "POST clk (Inr data) st =
           (json_response 400 [(''error'', JStr ''Missing required fields'')], st)"
proof -
  from assms(2) have "\<not> truthy (get_prop data f)" by auto
  with assms(1) have "missing_required data"
    unfolding missing_required_def by auto
  then show ?thesis by simp
qed

theorem submit_missing_field_rejected_witness:
  "POST \<lparr>date_now = 1700000000000, iso_now = ''2023-11-14T22:13:20.000Z''\<rparr>
     (Inr [(''company_name'', JStr ''Acme''), (''current_stage'', JStr '''')])
     \<lparr>applications = [], console = []\<rparr>
   = (json_response 400 [(''error'', JStr ''Missing required fields'')],
      \<lparr>applications = [], console = []\<rparr>)"
  by (rule submit_missing_field_rejected [where f = "''current_stage''"])
     (simp_all add: get_prop_def)

text \<open>
  C4, as the claim states it, fails: the answer to the valid sample submission has status 201
  and neither an \<open>accepted\<close> nor a \<open>processing_status\<close> field.
\<close>

theorem submit_response_fields_counterexample:
  "\<not> missing_required sample_payload
   \<and> status (fst (POST sample_clock (Inr sample_payload) empty_server)) = 201
   \<and> get_prop (body (fst (POST sample_clock (Inr sample_payload) empty_server))) ''accepted'' = None
   \<and> get_prop (body (fst (POST sample_clock (Inr sample_payload) empty_server)))
         ''processing_status'' = None"
  by (simp only: POST_sample fst_conv snd_conv)
     (simp add: sample_valid json_response_def get_prop_def)

text \<open>
  C4, amended. For a valid submission (the three required fields present) whose funding text
  can be built, the answer is 201 with exactly the fields \<open>success: true\<close>, \<open>id\<close> and \<open>message\<close>,
  and \<open>id\<close> is the identifier of the record just stored, the decimal text of the clock reading.
  The funding text can be built when \<open>funding_amount_seeking\<close> is present and not null and
  neither it nor \<open>funding_currency\<close> holds an object with a property \<open>toString\<close> of its own (for
  the amount, \<open>toLocaleString\<close> neither): so for every amount that is a number with a currency
  that is a string or absent. Otherwise the log line raises and the answer is 500.
\<close>

theorem submit_success_response:
  assumes "\<not> missing_required data"
    and "funding_text_ok (get_prop data ''funding_currency'')
           (get_prop data ''funding_amount_seeking'')"
  shows "fst (POST clk (Inr data) st) =
           json_response 201
             [(''success'', JBool True),
              (''id'', JStr (toString (date_now clk))),
              (''message'', JStr ''Application submitted successfully'')]
         \<and> get_prop (last (applications (snd (POST clk (Inr data) st)))) ''id''
             = Some (JStr (toString (date_now clk)))"
  using assms by (simp add: new_application_def get_set_prop Let_def log_def)

theorem submit_success_response_witness:
  "fst (POST sample_clock (Inr sample_payload) empty_server) =
     json_response 201
       [(''success'', JBool True),
        (''id'', JStr ''1700000000000''),
        (''message'', JStr ''Application submitted successfully'')]
   \<and> get_prop (last (applications (snd (POST sample_clock (Inr sample_payload) empty_server))))
         ''id'' = Some (JStr ''1700000000000'')"
proof -
  have now: "toString (date_now sample_clock) = ''1700000000000''"
    by (simp add: sample_clock_def toString_sample)
  show ?thesis
    using submit_success_response [OF sample_valid sample_funding, of sample_clock empty_server]
    by (simp add: now)
qed

text \<open>
  C6. A valid submission appends its record, carrying the assigned \<open>id\<close> and \<open>submitted_at\<close>,
  to the stored applications; the state the handler returns with its answer already holds it,
  so the \<open>total\<close> a listing reports afterwards is the former total plus one.
\<close>

theorem submit_persists_record:
  assumes "\<not> missing_required data"
  shows "applications (snd (POST clk (Inr data) st)) = applications st @ [new_application clk data]
    \<and> get_prop (new_application clk data) ''id'' = Some (JStr (toString (date_now clk)))
    \<and> get_prop (new_application clk data) ''submitted_at'' = Some (JStr (iso_now clk))
    \<and> get_prop (body (fst (GET_applications random query st))) ''total''
         = Some (JNum (of_nat (length (applications st))))
    \<and> get_prop (body (fst (GET_applications random query (snd (POST clk (Inr data) st))))) ''total''
         = Some (JNum (of_nat (length (applications st) + 1)))"
proof -
  have stored: "applications (snd (POST clk (Inr data) st))
                = applications st @ [new_application clk data]"
    using assms by (simp add: Let_def log_def)
  have total: "\<And>s. get_prop (body (fst (GET_applications random query s))) ''total''
                 = Some (JNum (of_nat (length (applications s))))"
    by (simp add: GET_applications_def Let_def json_response_def get_prop_def)
  show ?thesis
    by (simp only: total stored) (simp add: new_application_def get_set_prop)
qed

theorem submit_persists_record_witness:
  "applications (snd (POST sample_clock (Inr sample_payload) empty_server))
     = [new_application sample_clock sample_payload]
   \<and> get_prop (new_application sample_clock sample_payload) ''id''
       = Some (JStr ''1700000000000'')
   \<and> get_prop (body (fst (GET_applications (\<lambda>n. sample_decoration) [] empty_server))) ''total''
       = Some (JNum 0)
   \<and> get_prop (body (fst (GET_applications (\<lambda>n. sample_decoration) []
                  (snd (POST sample_clock (Inr sample_payload) empty_server))))) ''total''
       = Some (JNum 1)"
proof -
  have now: "toString (date_now sample_clock) = ''1700000000000''"
    by (simp add: sample_clock_def toString_sample)
  show ?thesis
    using submit_persists_record [OF sample_valid, of sample_clock empty_server
        "\<lambda>n. sample_decoration" "[]"]
    by (simp add: now empty_server_def)
qed

text \<open>
  C7 fails on the code: the identifier is the text of the millisecond clock, so two valid
  submissions handled at the same clock reading are both answered 201 with the same \<open>id\<close>, and
  the store then holds two records with that identifier.
\<close>

theorem same_millisecond_same_id:
  "fst (POST sample_clock (Inr sample_payload) empty_server)
     = json_response 201
         [(''success'', JBool True), (''id'', JStr ''1700000000000''),
          (''message'', JStr ''Application submitted successfully'')]
   \<and> fst (POST sample_clock (Inr other_payload)
            (snd (POST sample_clock (Inr sample_payload) empty_server)))
     = json_response 201
         [(''success'', JBool True), (''id'', JStr ''1700000000000''),
          (''message'', JStr ''Application submitted successfully'')]
   \<and> stored_ids (snd (POST sample_clock (Inr other_payload)
                    (snd (POST sample_clock (Inr sample_payload) empty_server))))
     = [Some (JStr ''1700000000000''), Some (JStr ''1700000000000'')]"
proof -
  have now: "toString (date_now sample_clock) = ''1700000000000''"
    by (simp add: sample_clock_def toString_sample)
  have second: "fst (POST sample_clock (Inr other_payload) s)
     = json_response 201
         [(''success'', JBool True), (''id'', JStr ''1700000000000''),
          (''message'', JStr ''Application submitted successfully'')]
     \<and> stored_ids (snd (POST sample_clock (Inr other_payload) s))
         = stored_ids s @ [Some (JStr ''1700000000000'')]" for s
    by (simp add: other_valid other_funding new_application_def get_set_prop log_def
        stored_ids_def now)
  show ?thesis
    by (simp only: second POST_sample fst_conv snd_conv)
       (simp add: stored_ids_def sample_payload_def get_prop_def)
qed

text \<open>
  X1. The clock reading is the only source of the identifier: two records built at different
  readings of \<^verbatim>\<open>Date.now()\<close> have different identifiers, whatever the payloads.
\<close>

theorem distinct_clock_distinct_id:
  assumes "date_now clk1 \<noteq> date_now clk2"
  shows "get_prop (new_application clk1 data1) ''id'' \<noteq> get_prop (new_application clk2 data2) ''id''"
  using assms toString_inject by (auto simp add: new_application_def get_set_prop)

theorem distinct_clock_distinct_id_witness:
  "get_prop (new_application \<lparr>date_now = 1700000000000, iso_now = ''a''\<rparr> sample_payload) ''id''
   \<noteq> get_prop (new_application \<lparr>date_now = 1700000000001, iso_now = ''a''\<rparr> other_payload) ''id''"
  by (rule distinct_clock_distinct_id) simp

section \<open>Fetching one application\<close>

text \<open>
  C5, as the claim states it, fails: with nothing stored, the identifier \<open>42\<close> belongs to no
  application, and fetching it is answered 200 with the mock application, not 404.
\<close>

theorem fetch_unknown_id_counterexample:
  "Some (JStr ''42'') \<notin> set (stored_ids empty_server)
   \<and> status (fst (GET_application ''2023-11-14T22:13:20.000Z'' ''42'' empty_server)) = 200
   \<and> status (fst (GET_application ''2023-11-14T22:13:20.000Z'' ''42'' empty_server)) \<noteq> 404
   \<and> get_prop (body (fst (GET_application ''2023-11-14T22:13:20.000Z'' ''42'' empty_server)))
         ''company_name'' = Some (JStr ''TechFlow AI Solutions'')"
  by (simp add: stored_ids_def empty_server_def GET_application_def json_response_def
      mockApplication_def get_prop_def)

text \<open>
  C5, amended. For every identifier, stored or not, fetching one application is answered 200
  with the fixed mock application carrying that identifier; the server is unchanged, and no
  identifier is answered NotFound.
\<close>

theorem fetch_answers_mock_for_every_id:
  "status (fst (GET_application now id' st)) = 200
   \<and> body (fst (GET_application now id' st)) = mockApplication id' now
   \<and> get_prop (body (fst (GET_application now id' st))) ''id'' = Some (JStr id')
   \<and> snd (GET_application now id' st) = st"
  by (simp add: GET_application_def json_response_def mockApplication_def get_prop_def)

text \<open>
  C3, as the claim states it, fails: the sample submission has an empty list of documents and
  is accepted, and the poll of its identifier right after has no \<open>processing_status\<close> at all;
  its \<open>status\<close> is PENDING.
\<close>

theorem zero_documents_poll_counterexample:
  "get_prop sample_payload ''documents'' = Some (JArr [])
   \<and> fst (POST sample_clock (Inr sample_payload) empty_server)
       = json_response 201
           [(''success'', JBool True), (''id'', JStr ''1700000000000''),
            (''message'', JStr ''Application submitted successfully'')]
   \<and> get_prop (body (fst (GET_application ''2023-11-14T22:13:21.000Z'' ''1700000000000''
                  (snd (POST sample_clock (Inr sample_payload) empty_server)))))
         ''processing_status'' = None
   \<and> get_prop (body (fst (GET_application ''2023-11-14T22:13:21.000Z'' ''1700000000000''
                  (snd (POST sample_clock (Inr sample_payload) empty_server)))))
         ''status'' = Some (JStr ''PENDING'')"
  by (simp only: POST_sample fst_conv snd_conv)
     (simp add: sample_payload_def GET_application_def json_response_def mockApplication_def
       get_prop_def)

text \<open>
  C3, amended. For a valid submission with zero documents whose funding text can be built
  (the amount present and not null, and neither the amount nor the currency an object with a
  \<open>toString\<close>, for the amount also a \<open>toLocaleString\<close>, property of its own), the handler's whole
  effect is one stored record and one console line, the one announcing the new application:
  nothing is dispatched. The poll of the new identifier that follows is answered with the mock
  application, whose \<open>status\<close> is PENDING and which has no \<open>processing_status\<close> field.
\<close>

theorem zero_documents_submit_then_poll:
  assumes "\<not> missing_required data"
    and "get_prop data ''documents'' = Some (JArr [])"
    and "funding_text_ok (get_prop data ''funding_currency'')
           (get_prop data ''funding_amount_seeking'')"
  shows "snd (POST clk (Inr data) st)
           = st\<lparr>applications := applications st @ [new_application clk data],
                console := console st @
                  [New_application_received (Some (JStr (toString (date_now clk))))
                     (get_prop data ''company_name'') (get_prop data ''current_stage'')
                     (get_prop data ''funding_currency'')
                     (get_prop data ''funding_amount_seeking'')]\<rparr>
         \<and> get_prop (body (fst (GET_application now (toString (date_now clk))
                        (snd (POST clk (Inr data) st))))) ''status'' = Some (JStr ''PENDING'')
         \<and> get_prop (body (fst (GET_application now (toString (date_now clk))
                        (snd (POST clk (Inr data) st))))) ''processing_status'' = None"
proof -
  have poll: "\<And>s i. get_prop (body (fst (GET_application now i s))) ''status''
                  = Some (JStr ''PENDING'')
              \<and> get_prop (body (fst (GET_application now i s))) ''processing_status'' = None"
    by (simp add: GET_application_def json_response_def mockApplication_def get_prop_def)
  have post: "snd (POST clk (Inr data) st)
           = st\<lparr>applications := applications st @ [new_application clk data],
                console := console st @
                  [New_application_received (Some (JStr (toString (date_now clk))))
                     (get_prop data ''company_name'') (get_prop data ''current_stage'')
                     (get_prop data ''funding_currency'')
                     (get_prop data ''funding_amount_seeking'')]\<rparr>"
    using assms(1,3) by (simp add: new_application_def get_set_prop Let_def log_def)
  show ?thesis using post poll by simp
qed

theorem zero_documents_submit_then_poll_witness:
  "applications (snd (POST sample_clock (Inr sample_payload) empty_server))
     = [new_application sample_clock sample_payload]
   \<and> console (snd (POST sample_clock (Inr sample_payload) empty_server))
     = [New_application_received (Some (JStr ''1700000000000'')) (Some (JStr ''Acme''))
          (Some (JStr ''MVP'')) (Some (JStr ''INR'')) (Some (JNum 1000))]
   \<and> get_prop (body (fst (GET_application ''2023-11-14T22:13:21.000Z''
                  (toString (date_now sample_clock))
                  (snd (POST sample_clock (Inr sample_payload) empty_server)))))
         ''status'' = Some (JStr ''PENDING'')
   \<and> get_prop (body (fst (GET_application ''2023-11-14T22:13:21.000Z''
                  (toString (date_now sample_clock))
                  (snd (POST sample_clock (Inr sample_payload) empty_server)))))
         ''processing_status'' = None"
proof -
  have docs: "get_prop sample_payload ''documents'' = Some (JArr [])"
    by (simp add: sample_payload_def get_prop_def)
  have now: "toString (date_now sample_clock) = ''1700000000000''"
    by (simp add: sample_clock_def toString_sample)
  have fields: "get_prop sample_payload ''company_name'' = Some (JStr ''Acme'')"
    "get_prop sample_payload ''current_stage'' = Some (JStr ''MVP'')"
    "get_prop sample_payload ''funding_currency'' = Some (JStr ''INR'')"
    "get_prop sample_payload ''funding_amount_seeking'' = Some (JNum 1000)"
    by (simp_all add: sample_payload_def get_prop_def)
  note th = zero_documents_submit_then_poll [OF sample_valid docs sample_funding,
      of sample_clock empty_server "''2023-11-14T22:13:21.000Z''"]
  note post = conjunct1 [OF th]
  note polls = conjunct2 [OF th]
  have a: "applications (snd (POST sample_clock (Inr sample_payload) empty_server))
     = [new_application sample_clock sample_payload]"
    by (simp only: post) (simp add: empty_server_def)
  have b: "console (snd (POST sample_clock (Inr sample_payload) empty_server))
     = [New_application_received (Some (JStr ''1700000000000'')) (Some (JStr ''Acme''))
          (Some (JStr ''MVP'')) (Some (JStr ''INR'')) (Some (JNum 1000))]"
    by (simp only: post now fields) (simp add: empty_server_def)
  show ?thesis
    by (intro conjI) (rule a, rule b, rule conjunct1 [OF polls], rule conjunct2 [OF polls])
qed

section \<open>Reads and the update leave the store alone\<close>

text \<open>
  C9. Listing the applications and fetching one return the server as it was; the update
  (PATCH) writes a console line and leaves the stored applications, every record of them, as
  they were. None of the three mutates or deletes a stored record.
\<close>

theorem reads_and_update_leave_store:
  "snd (GET_applications random query st) = st
   \<and> snd (GET_application now id' st) = st
   \<and> applications (snd (PATCH id' req st)) = applications st"
  by (cases req) (simp_all add: GET_applications_def GET_application_def log_def Let_def)

section \<open>Listing\<close>

text \<open>
  C10. Let the \<open>limit\<close> parameter be absent (then \<open>lmt\<close> is 10) or the decimal text of \<open>lmt\<close>, and
  the \<open>offset\<close> parameter be absent (then \<open>off\<close> is 0) or the decimal text of \<open>off\<close>, however large
  the two are; the store holds fewer than \<open>2^32\<close> applications, as every JavaScript array does.
  The listing is answered 200, and its \<open>applications\<close> field holds decorated copies of the stored
  applications from index \<open>off\<close> up to \<open>off + lmt\<close>, in order: at most \<open>lmt\<close> entries, none when
  \<open>off\<close> is at or past the end; the entry at position \<open>i\<close> is the stored application at index
  \<open>off + i\<close> with the five mock decoration keys written over it (so a stored \<open>status\<close> or
  \<open>ai_score\<close> is not what the entry shows), and equals it on every other key. The \<open>total\<close> field
  is the number of stored applications, whatever \<open>lmt\<close> and \<open>off\<close> are.
\<close>

theorem list_returns_slice:
  assumes "map_of query ''limit'' = None \<and> lmt = 10
           \<or> map_of query ''limit'' = Some (dec_nat lmt)"
    and "map_of query ''offset'' = None \<and> off = 0
           \<or> map_of query ''offset'' = Some (dec_nat off)"
    and "length (applications st) < 2 ^ 32"
  shows "status (fst (GET_applications random query st)) = 200
         \<and> get_prop (body (fst (GET_applications random query st))) ''applications''
             = Some (JArr (map JObj
                 (enhance_all random 0 (take lmt (drop off (applications st))))))
         \<and> length (enhance_all random 0 (take lmt (drop off (applications st))))
             = min lmt (length (applications st) - off)
         \<and> (\<forall>i<min lmt (length (applications st) - off).
               enhance_all random 0 (take lmt (drop off (applications st))) ! i
                 = enhance (random i) (applications st ! (off + i))
               \<and> (\<forall>k. k \<notin> set decoration_keys \<longrightarrow>
                     get_prop (enhance_all random 0 (take lmt (drop off (applications st))) ! i) k
                       = get_prop (applications st ! (off + i)) k))
         \<and> get_prop (body (fst (GET_applications random query st))) ''total''
             = Some (JNum (of_nat (length (applications st))))"
proof -
  have "(2::nat) ^ 32 \<le> 2 ^ 53" by (rule power_increasing) simp_all
  with assms(3) have len: "length (applications st) \<le> 2 ^ 53" by simp
  have l: "parseInt (or_default (map_of query ''limit'') ''10'') = to_number (int lmt)"
    using assms(1)
  proof
    assume "map_of query ''limit'' = None \<and> lmt = 10"
    then show ?thesis by (simp add: or_default_def parse_default_limit del: of_nat_numeral)
  next
    assume "map_of query ''limit'' = Some (dec_nat lmt)"
    then show ?thesis by (simp add: or_default_dec_nat parseInt_dec_nat)
  qed
  have o: "parseInt (or_default (map_of query ''offset'') ''0'') = to_number (int off)"
    using assms(2)
  proof
    assume "map_of query ''offset'' = None \<and> off = 0"
    then show ?thesis by (simp add: or_default_def parse_default_offset del: of_nat_0)
  next
    assume "map_of query ''offset'' = Some (dec_nat off)"
    then show ?thesis by (simp add: or_default_dec_nat parseInt_dec_nat)
  qed
  note answer = GET_applications_parsed [OF l o len, of random]
  have st: "status (fst (GET_applications random query st)) = 200"
    by (simp only: answer fst_conv) (simp add: json_response_def)
  have apps: "get_prop (body (fst (GET_applications random query st))) ''applications''
             = Some (JArr (map JObj
                 (enhance_all random 0 (take lmt (drop off (applications st))))))"
    by (simp only: answer fst_conv) (simp add: json_response_def get_prop_def)
  have total: "get_prop (body (fst (GET_applications random query st))) ''total''
             = Some (JNum (of_nat (length (applications st))))"
    by (simp only: answer fst_conv) (simp add: json_response_def get_prop_def)
  have count: "length (enhance_all random 0 (take lmt (drop off (applications st))))
             = min lmt (length (applications st) - off)"
    by (simp add: length_enhance_all)
  have entry: "enhance_all random 0 (take lmt (drop off (applications st))) ! i
                 = enhance (random i) (applications st ! (off + i))"
    if "i < min lmt (length (applications st) - off)" for i
  proof -
    from that have "i < length (take lmt (drop off (applications st)))" by simp
    then have "enhance_all random 0 (take lmt (drop off (applications st))) ! i =
       enhance (random (0 + i)) (take lmt (drop off (applications st)) ! i)"
      by (rule nth_enhance_all)
    moreover have "off \<le> length (applications st)"
      using that by arith
    then have "take lmt (drop off (applications st)) ! i = applications st ! (off + i)"
      using that by simp
    ultimately show ?thesis by simp
  qed
  have entries: "\<forall>i<min lmt (length (applications st) - off).
               enhance_all random 0 (take lmt (drop off (applications st))) ! i
                 = enhance (random i) (applications st ! (off + i))
               \<and> (\<forall>k. k \<notin> set decoration_keys \<longrightarrow>
                     get_prop (enhance_all random 0 (take lmt (drop off (applications st))) ! i) k
                       = get_prop (applications st ! (off + i)) k)"
    by (simp add: entry enhance_keeps)
  show ?thesis
    by (intro conjI) (rule st, rule apps, rule count, rule entries, rule total)
qed

theorem list_returns_slice_witness:
  "get_prop (body (fst (GET_applications (\<lambda>n. sample_decoration)
       [(''limit'', ''2''), (''offset'', ''1'')] three_stored))) ''applications''
     = Some (JArr [JObj (enhance sample_decoration [(''id'', JStr ''b'')]),
                   JObj (enhance sample_decoration [(''id'', JStr ''c'')])])
   \<and> get_prop (body (fst (GET_applications (\<lambda>n. sample_decoration)
       [(''limit'', ''2''), (''offset'', ''1'')] three_stored))) ''total'' = Some (JNum 3)"
proof -
  have two: "dec_nat 2 = ''2''" and one': "dec_nat (Suc 0) = ''1''"
    by (simp_all add: dec_nat.simps digit_char_def)
  have lmt: "map_of [(''limit'', ''2''), (''offset'', ''1'')] ''limit'' = None \<and> (2::nat) = 10
        \<or> map_of [(''limit'', ''2''), (''offset'', ''1'')] ''limit'' = Some (dec_nat 2)"
    by (simp add: two)
  have off: "map_of [(''limit'', ''2''), (''offset'', ''1'')] ''offset'' = None \<and> (1::nat) = 0
        \<or> map_of [(''limit'', ''2''), (''offset'', ''1'')] ''offset'' = Some (dec_nat 1)"
    by (simp add: one')
  have len: "length (applications three_stored) < 2 ^ 32"
    by (simp add: three_stored_def)
  note th = list_returns_slice [OF lmt off len, of "\<lambda>n. sample_decoration"]
  note apps = conjunct1 [OF conjunct2 [OF th]]
  note total = conjunct2 [OF conjunct2 [OF conjunct2 [OF conjunct2 [OF th]]]]
  have a: "get_prop (body (fst (GET_applications (\<lambda>n. sample_decoration)
       [(''limit'', ''2''), (''offset'', ''1'')] three_stored))) ''applications''
     = Some (JArr [JObj (enhance sample_decoration [(''id'', JStr ''b'')]),
                   JObj (enhance sample_decoration [(''id'', JStr ''c'')])])"
    by (simp only: apps) (simp add: three_stored_def)
  have t: "get_prop (body (fst (GET_applications (\<lambda>n. sample_decoration)
       [(''limit'', ''2''), (''offset'', ''1'')] three_stored))) ''total'' = Some (JNum 3)"
    by (simp only: total) (simp add: three_stored_def)
  show ?thesis by (intro conjI) (rule a, rule t)
qed

section \<open>The background pipeline, as specified\<close>

text \<open>
  C2. After every pass of the Status Aggregator the application's \<open>processing_status\<close> is
  determined by the documents' extraction statuses alone: PROCESSING when some document is
  PENDING or PROCESSING, COMPLETED when all are terminal; in particular COMPLETED, not FAILED,
  when every document is FAILED; and two passes that leave the same statuses leave the same
  \<open>processing_status\<close>.
\<close>

theorem aggregate_status_precedence:
  fixes app' :: application
  assumes "app' = aggregate now i r app"
  shows "((\<exists>d\<in>set (documents app').
            extraction_status d = Doc_PENDING \<or> extraction_status d = Doc_PROCESSING)
          \<longrightarrow> processing_status app' = App_PROCESSING)
       \<and> ((\<forall>d\<in>set (documents app').
              extraction_status d = Doc_SUCCESS \<or> extraction_status d = Doc_FAILED)
          \<longrightarrow> processing_status app' = App_COMPLETED)
       \<and> ((\<forall>d\<in>set (documents app'). extraction_status d = Doc_FAILED)
          \<longrightarrow> processing_status app' = App_COMPLETED \<and> processing_status app' \<noteq> App_FAILED)
       \<and> (\<forall>now2 i2 r2 app2.
             map extraction_status (documents (aggregate now2 i2 r2 app2))
               = map extraction_status (documents app')
             \<longrightarrow> processing_status (aggregate now2 i2 r2 app2) = processing_status app')"
proof -
  have ps: "processing_status app' = recompute_status (documents app')"
    using assms by (simp add: processing_status_aggregate)
  have a: "(\<exists>d\<in>set (documents app').
            extraction_status d = Doc_PENDING \<or> extraction_status d = Doc_PROCESSING)
          \<longrightarrow> processing_status app' = App_PROCESSING"
  proof
    assume "\<exists>d\<in>set (documents app').
            extraction_status d = Doc_PENDING \<or> extraction_status d = Doc_PROCESSING"
    then obtain d where d: "d \<in> set (documents app')"
      and "extraction_status d = Doc_PENDING \<or> extraction_status d = Doc_PROCESSING"
      by blast
    then have "in_flight (extraction_status d)" by auto
    with d have "\<exists>d\<in>set (documents app'). in_flight (extraction_status d)" by blast
    then show "processing_status app' = App_PROCESSING"
      unfolding ps by (rule recompute_processing)
  qed
  have b: "(\<forall>d\<in>set (documents app').
              extraction_status d = Doc_SUCCESS \<or> extraction_status d = Doc_FAILED)
          \<longrightarrow> processing_status app' = App_COMPLETED"
  proof
    assume "\<forall>d\<in>set (documents app').
              extraction_status d = Doc_SUCCESS \<or> extraction_status d = Doc_FAILED"
    then have "\<forall>d\<in>set (documents app'). \<not> in_flight (extraction_status d)" by auto
    then show "processing_status app' = App_COMPLETED"
      unfolding ps by (rule recompute_completed)
  qed
  have c: "(\<forall>d\<in>set (documents app'). extraction_status d = Doc_FAILED)
          \<longrightarrow> processing_status app' = App_COMPLETED \<and> processing_status app' \<noteq> App_FAILED"
  proof
    assume "\<forall>d\<in>set (documents app'). extraction_status d = Doc_FAILED"
    then have "\<forall>d\<in>set (documents app'). \<not> in_flight (extraction_status d)" by auto
    then have "processing_status app' = App_COMPLETED"
      unfolding ps by (rule recompute_completed)
    then show "processing_status app' = App_COMPLETED \<and> processing_status app' \<noteq> App_FAILED"
      by simp
  qed
  have d: "\<forall>now2 i2 r2 app2.
             map extraction_status (documents (aggregate now2 i2 r2 app2))
               = map extraction_status (documents app')
             \<longrightarrow> processing_status (aggregate now2 i2 r2 app2) = processing_status app'"
    by (simp add: ps processing_status_aggregate recompute_status_map)
  show ?thesis
    by (intro conjI) (rule a, rule b, rule c, rule d)
qed

theorem aggregate_status_precedence_witness:
  "processing_status (aggregate 9 1 (Report_FAILED ''timeout'') sample_application) = App_COMPLETED
   \<and> map extraction_status
        (documents (aggregate 9 1 (Report_FAILED ''timeout'') sample_application))
       = [Doc_FAILED, Doc_FAILED]"
proof -
  note th = aggregate_status_precedence [OF refl, of 9 1 "Report_FAILED ''timeout''"
      sample_application]
  note all_failed = conjunct1 [OF conjunct2 [OF conjunct2 [OF th]]]
  have sts: "map extraction_status
        (documents (aggregate 9 1 (Report_FAILED ''timeout'') sample_application))
       = [Doc_FAILED, Doc_FAILED]"
    by (simp only: sample_last_report) (simp add: failed_doc_def processing_doc_def)
  have "\<forall>d\<in>set (documents (aggregate 9 1 (Report_FAILED ''timeout'') sample_application)).
          extraction_status d = Doc_FAILED"
    by (simp only: sample_last_report) (simp add: failed_doc_def processing_doc_def)
  with all_failed
  have "processing_status (aggregate 9 1 (Report_FAILED ''timeout'') sample_application)
          = App_COMPLETED"
    by blast
  with sts show ?thesis by (intro conjI)
qed

text \<open>
  C8. A fresh document whose Extraction Capability invocations all return RetryableFailure, under
  a configuration with \<open>max_attempts\<close> at least 1 (3 by default), ends FAILED with
  \<open>attempt_count = max_attempts\<close> and the last error recorded. The run's events are the
  attempts 1 to \<open>max_attempts - 1\<close>, each followed by its backoff, then the attempt
  \<open>max_attempts\<close>, then the report of FAILED: exactly \<open>max_attempts\<close> invocations, FAILED is
  reported after the last of them and nowhere before, and nothing is invoked after it.
\<close>

theorem always_retryable_fails_after_max_attempts:
  assumes "\<forall>n. capability n = RetryableFailure (why n)"
    and "0 < max_attempts cfg"
    and "attempt_count doc = 0"
  shows "extraction_status (fst (extract_document cfg capability doc)) = Doc_FAILED
       \<and> attempt_count (fst (extract_document cfg capability doc)) = max_attempts cfg
       \<and> extraction_error (fst (extract_document cfg capability doc))
           = Some (why (max_attempts cfg))
       \<and> snd (extract_document cfg capability doc)
           = retries cfg 1 (max_attempts cfg) @ [Invoke (max_attempts cfg), Terminal Doc_FAILED]
       \<and> filter is_invoke (snd (extract_document cfg capability doc))
           = map Invoke [1..<Suc (max_attempts cfg)]
       \<and> Terminal Doc_FAILED \<notin> set (butlast (snd (extract_document cfg capability doc)))"
proof -
  have lt: "attempt_count doc < max_attempts cfg" using assms(2,3) by simp
  note run = extract_always_retryable [OF assms(1) lt]
  have tr: "snd (extract_document cfg capability doc)
           = retries cfg 1 (max_attempts cfg) @ [Invoke (max_attempts cfg), Terminal Doc_FAILED]"
    by (simp add: run assms(3))
  have inv: "filter is_invoke (snd (extract_document cfg capability doc))
           = map Invoke [1..<Suc (max_attempts cfg)]"
    using assms(2) by (simp add: tr filter_invoke_retries)
  have "butlast (snd (extract_document cfg capability doc))
          = retries cfg 1 (max_attempts cfg) @ [Invoke (max_attempts cfg)]"
    by (simp add: tr butlast_append)
  then have last: "Terminal Doc_FAILED \<notin> set (butlast (snd (extract_document cfg capability doc)))"
    by (simp add: terminal_not_in_retries)
  show ?thesis
    using tr inv last by (simp add: run)
qed

theorem always_retryable_fails_after_max_attempts_witness:
  "extraction_status (fst (extract_document default_config (\<lambda>n. RetryableFailure ''timeout'')
      fresh_document)) = Doc_FAILED
   \<and> attempt_count (fst (extract_document default_config (\<lambda>n. RetryableFailure ''timeout'')
      fresh_document)) = 3
   \<and> snd (extract_document default_config (\<lambda>n. RetryableFailure ''timeout'') fresh_document)
       = [Invoke 1, Backoff 2000, Invoke 2, Backoff 4000, Invoke 3, Terminal Doc_FAILED]"
proof -
  have cap: "\<forall>n. (\<lambda>n. RetryableFailure ''timeout'') n = RetryableFailure ((\<lambda>n. ''timeout'') n)"
    by simp
  have pos: "0 < max_attempts default_config" by (simp add: default_config_def)
  have fresh: "attempt_count fresh_document = 0" by (simp add: fresh_document_def)
  note th = always_retryable_fails_after_max_attempts [OF cap pos fresh]
  have three: "max_attempts default_config = 3" by (simp add: default_config_def)
  have tr: "retries default_config (Suc 0) 3 = [Invoke 1, Backoff 2000, Invoke 2, Backoff 4000]"
    by (simp add: retries_def backoff_delay_def default_config_def upt_rec)
  from th show ?thesis
    by (simp add: three tr)
qed

end
